theory Spec2Isabelle
  imports Complex_Main "HOL-Library.Word"
begin

section \<open>Corsair Commander Pro driver: data model\<close>

text \<open>
  A shallow embedding of \<^verbatim>\<open>liquidctl/driver/commander_pro.py\<close>. Python integers are
  \<open>int\<close>, the elements of a \<^verbatim>\<open>bytearray\<close> are 8-bit words, and every exception the
  driver can raise is a value of the type \<open>error\<close>.
\<close>

type_synonym byte = "8 word"

datatype error = ValueError | OverflowError | IndexError | NameError

text \<open>\<^verbatim>\<open>_WRITE_LENGTH\<close> and \<^verbatim>\<open>_READ_LENGTH\<close>.\<close>

definition WRITE_LENGTH :: nat where
  "WRITE_LENGTH = 64"

definition READ_LENGTH :: nat where
  "READ_LENGTH = 16"

subsection \<open>Enumerations and their wire values\<close>

datatype Command =
    READ_STATUS | GET_FIRMWARE_VERSION | GET_SOFTWARE_ID | WRITE_DEVICE_ID
  | START_FIRMWARE_UPDATE | GET_BOOTLOADER_VERSION | WRITE_TEST_FLAG
  | GET_THERMOMETER_CONFIG | GET_TEMPERATURE | GET_VOLTAGE
  | GET_FAN_CONFIG | GET_FAN_SPEED | GET_FAN_SPEED_PWM | SET_FAN_SPEED_PERCENT
  | SET_FAN_SPEED_RPM | SET_FAN_SPEED_GRAPH | SET_FAN_TEMP_INFO | SET_FAN_FORCE
  | SET_FAN_MODE | GET_FAN_MODE
  | GET_LED_STRIP_MASK | SET_LED_VALUE | SET_LED_COLOUR_VALUES | SET_LED_TRIGGER
  | SET_LED_CLEAR | SET_LED_MODE | SET_LED_TEMP_INFO | SET_LED_GROUP_CLEAR
  | SET_LED_GROUP_MODE | SET_LED_BRIGHTNESS | GET_LED_COUNT | SET_LED_PORT_TYPE

fun Command_value :: "Command \<Rightarrow> byte" where
  "Command_value READ_STATUS = 0x01"
| "Command_value GET_FIRMWARE_VERSION = 0x02"
| "Command_value GET_SOFTWARE_ID = 0x03"
| "Command_value WRITE_DEVICE_ID = 0x04"
| "Command_value START_FIRMWARE_UPDATE = 0x05"
| "Command_value GET_BOOTLOADER_VERSION = 0x06"
| "Command_value WRITE_TEST_FLAG = 0x07"
| "Command_value GET_THERMOMETER_CONFIG = 0x10"
| "Command_value GET_TEMPERATURE = 0x11"
| "Command_value GET_VOLTAGE = 0x12"
| "Command_value GET_FAN_CONFIG = 0x20"
| "Command_value GET_FAN_SPEED = 0x21"
| "Command_value GET_FAN_SPEED_PWM = 0x22"
| "Command_value SET_FAN_SPEED_PERCENT = 0x23"
| "Command_value SET_FAN_SPEED_RPM = 0x24"
| "Command_value SET_FAN_SPEED_GRAPH = 0x25"
| "Command_value SET_FAN_TEMP_INFO = 0x26"
| "Command_value SET_FAN_FORCE = 0x27"
| "Command_value SET_FAN_MODE = 0x28"
| "Command_value GET_FAN_MODE = 0x29"
| "Command_value GET_LED_STRIP_MASK = 0x30"
| "Command_value SET_LED_VALUE = 0x31"
| "Command_value SET_LED_COLOUR_VALUES = 0x32"
| "Command_value SET_LED_TRIGGER = 0x33"
| "Command_value SET_LED_CLEAR = 0x34"
| "Command_value SET_LED_MODE = 0x35"
| "Command_value SET_LED_TEMP_INFO = 0x36"
| "Command_value SET_LED_GROUP_CLEAR = 0x37"
| "Command_value SET_LED_GROUP_MODE = 0x38"
| "Command_value SET_LED_BRIGHTNESS = 0x39"
| "Command_value GET_LED_COUNT = 0x3a"
| "Command_value SET_LED_PORT_TYPE = 0x3B"

datatype Channel = CHANNEL_1 | CHANNEL_2

fun Channel_value :: "Channel \<Rightarrow> byte" where
  "Channel_value CHANNEL_1 = 0x00"
| "Channel_value CHANNEL_2 = 0x01"

datatype FanID = FAN_1 | FAN_2 | FAN_3 | FAN_4 | FAN_5 | FAN_6

fun FanID_value :: "FanID \<Rightarrow> byte" where
  "FanID_value FAN_1 = 0x00"
| "FanID_value FAN_2 = 0x0C"
| "FanID_value FAN_3 = 0x18"
| "FanID_value FAN_4 = 0x24"
| "FanID_value FAN_5 = 0x30"
| "FanID_value FAN_6 = 0x3C"

text \<open>The members of \<^verbatim>\<open>_FanID\<close> in declaration order, which is also the list
  \<^verbatim>\<open>fans\<close> that \<^verbatim>\<open>set_color\<close> builds: position \<open>i\<close> is the LED group of fan slot \<open>i\<close>.\<close>

definition FanID_members :: "FanID list" where
  "FanID_members = [FAN_1, FAN_2, FAN_3, FAN_4, FAN_5, FAN_6]"

datatype LedType = STRIP | HD_FAN | SP_FAN | M1_FAN

fun LedType_value :: "LedType \<Rightarrow> byte" where
  "LedType_value STRIP = 0x0A"
| "LedType_value HD_FAN = 0x0C"
| "LedType_value SP_FAN = 0x01"
| "LedType_value M1_FAN = 0x04"

datatype Effect =
    RAINBOW_WAVE | COLOUR_SHIFT | COLOUR_PULSE | COLOUR_WAVE | STATIC | TEMPERATURE
  | VISOR | MARQUEE | BLINK | SEQUENTIAL | RAINBOW

fun Effect_value :: "Effect \<Rightarrow> byte" where
  "Effect_value RAINBOW_WAVE = 0x00"
| "Effect_value COLOUR_SHIFT = 0x01"
| "Effect_value COLOUR_PULSE = 0x02"
| "Effect_value COLOUR_WAVE = 0x03"
| "Effect_value STATIC = 0x04"
| "Effect_value TEMPERATURE = 0x05"
| "Effect_value VISOR = 0x06"
| "Effect_value MARQUEE = 0x07"
| "Effect_value BLINK = 0x08"
| "Effect_value SEQUENTIAL = 0x09"
| "Effect_value RAINBOW = 0x0A"

datatype Speed = Speed_HIGH | Speed_MEDIUM | Speed_SLOW

fun Speed_value :: "Speed \<Rightarrow> byte" where
  "Speed_value Speed_HIGH = 0x00"
| "Speed_value Speed_MEDIUM = 0x01"
| "Speed_value Speed_SLOW = 0x02"

datatype Direction = BACKWARD | FORWARD

fun Direction_value :: "Direction \<Rightarrow> byte" where
  "Direction_value BACKWARD = 0x00"
| "Direction_value FORWARD = 0x01"

datatype ColourMode = ALTERNATING | RANDOM

fun ColourMode_value :: "ColourMode \<Rightarrow> byte" where
  "ColourMode_value ALTERNATING = 0x00"
| "ColourMode_value RANDOM = 0x01"

datatype Brightness = Brightness_MAX | Brightness_MEDIUM | Brightness_LOW | Brightness_ZERO

fun Brightness_value :: "Brightness \<Rightarrow> byte" where
  "Brightness_value Brightness_MAX = 0x64"
| "Brightness_value Brightness_MEDIUM = 0x42"
| "Brightness_value Brightness_LOW = 0x21"
| "Brightness_value Brightness_ZERO = 0x00"

subsection \<open>Configuration objects\<close>

text \<open>\<^verbatim>\<open>FanConfig\<close>: a colour is whatever sequence the caller passed; the driver
  indexes it at 0, 1 and 2 and stores the items into a \<^verbatim>\<open>bytearray\<close>.\<close>

record FanConfig =
  fan :: FanID
  effect :: Effect
  speed :: Speed
  direction :: Direction
  colourMode :: ColourMode
  colour1 :: "int list"
  colour2 :: "int list"
  colour3 :: "int list"

record LedConfig =
  channel :: Channel
  ledType :: LedType
  brightness :: Brightness
  fanConfigs :: "FanConfig list"

section \<open>Python primitives used by the driver\<close>

text \<open>\<^verbatim>\<open>bytearray(n)\<close>: \<open>n\<close> zero bytes.\<close>

definition bytearray :: "nat \<Rightarrow> byte list" where
  "bytearray n = replicate n 0"

text \<open>\<^verbatim>\<open>buf[i] = v\<close> for an integer \<open>v\<close>: a \<^verbatim>\<open>bytearray\<close> refuses a value outside
  \<^verbatim>\<open>range(0, 256)\<close> with \<^verbatim>\<open>ValueError\<close> and an index past its end with
  \<^verbatim>\<open>IndexError\<close>.\<close>

definition setitem :: "byte list \<Rightarrow> nat \<Rightarrow> int \<Rightarrow> error + byte list" where
  "setitem buf i v =
     (if \<not> i < length buf then Inl IndexError
      else if v < 0 \<or> 255 < v then Inl ValueError
      else Inr (buf[i := word_of_int v]))"

text \<open>\<^verbatim>\<open>xs[i]\<close> on a sequence of integers, for a non-negative index.\<close>

definition getitem :: "int list \<Rightarrow> nat \<Rightarrow> error + int" where
  "getitem xs i = (if i < length xs then Inr (xs ! i) else Inl IndexError)"

text \<open>\<^verbatim>\<open>int.to_bytes(x, length = 2, byteorder = 'big')\<close>: unsigned, so a negative
  \<open>x\<close> and an \<open>x\<close> of more than 16 bits raise \<^verbatim>\<open>OverflowError\<close>.\<close>

definition to_bytes2 :: "int \<Rightarrow> error + byte list" where
  "to_bytes2 x =
     (if x < 0 \<or> 65535 < x then Inl OverflowError
      else Inr [word_of_int (x div 256), word_of_int (x mod 256)])"

text \<open>\<^verbatim>\<open>int.from_bytes(bs, byteorder = 'big')\<close>.\<close>

definition from_bytes :: "byte list \<Rightarrow> int" where
  "from_bytes bs = foldl (\<lambda>acc b. acc * 256 + uint b) 0 bs"

text \<open>The slice \<^verbatim>\<open>xs[a:b]\<close> for non-negative bounds.\<close>

definition slice :: "'a list \<Rightarrow> nat \<Rightarrow> nat \<Rightarrow> 'a list" where
  "slice xs a b = take (b - a) (drop a xs)"

text \<open>\<^verbatim>\<open>'%d' % n\<close> for a non-negative \<open>n\<close>.\<close>

fun fmt_d :: "nat \<Rightarrow> string" where
  "fmt_d n = (if n < 10 then [''0123456789'' ! n]
              else fmt_d (n div 10) @ [''0123456789'' ! (n mod 10)])"

declare fmt_d.simps [simp del]

section \<open>The transport\<close>

text \<open>
  Modelled from the spec: the HID transport behind \<^verbatim>\<open>self.device\<close> (the class
  \<^verbatim>\<open>UsbHidDriver\<close> and its device are not part of this file). Its three operations
  are \<^verbatim>\<open>clear_enqueued_reports()\<close>, \<^verbatim>\<open>write(frame)\<close> and \<^verbatim>\<open>read(length)\<close>, and a read
  returns exactly \<open>length\<close> bytes. The state of the transport is the sequence of calls
  made on it so far; what the device answers to a read is a parameter \<open>rp\<close>, any function
  of that history, so that nothing is assumed about the content of a response.
\<close>

datatype event = Clear | Write "byte list" | Read nat

type_synonym trace = "event list"

type_synonym reply = "trace \<Rightarrow> nat \<Rightarrow> byte"

definition clear_enqueued_reports :: "trace \<Rightarrow> trace" where
  "clear_enqueued_reports tr = tr @ [Clear]"

definition dev_write :: "byte list \<Rightarrow> trace \<Rightarrow> trace" where
  "dev_write buf tr = tr @ [Write buf]"

definition dev_read :: "reply \<Rightarrow> nat \<Rightarrow> trace \<Rightarrow> byte list \<times> trace" where
  "dev_read rp n tr = (map (rp tr) [0..<n], tr @ [Read n])"

text \<open>Sequencing of steps that may raise: the first error ends the computation.\<close>

definition bindE :: "error + 'a \<Rightarrow> ('a \<Rightarrow> error + 'b) \<Rightarrow> error + 'b" where
  "bindE m f = (case m of Inl e \<Rightarrow> Inl e | Inr x \<Rightarrow> f x)"

section \<open>LED control\<close>

text \<open>The statement \<^verbatim>\<open>buf[i] = colour[k]\<close>: the item is fetched first, then stored.\<close>

definition put_colour :: "byte list \<Rightarrow> nat \<Rightarrow> int list \<Rightarrow> nat \<Rightarrow> error + byte list" where
  "put_colour buf i colour k = bindE (getitem colour k) (setitem buf i)"

text \<open>The nine assignments to \<^verbatim>\<open>buf[9]\<close> .. \<^verbatim>\<open>buf[17]\<close> guarded by
  \<^verbatim>\<open>fanConfig.colourMode != _ColourMode.RANDOM\<close>.\<close>

definition put_colours :: "byte list \<Rightarrow> FanConfig \<Rightarrow> error + byte list" where
  "put_colours buf fc =
     bindE (put_colour buf 9 (colour1 fc) 0) (\<lambda>buf.
     bindE (put_colour buf 10 (colour1 fc) 1) (\<lambda>buf.
     bindE (put_colour buf 11 (colour1 fc) 2) (\<lambda>buf.
     bindE (put_colour buf 12 (colour2 fc) 0) (\<lambda>buf.
     bindE (put_colour buf 13 (colour2 fc) 1) (\<lambda>buf.
     bindE (put_colour buf 14 (colour2 fc) 2) (\<lambda>buf.
     bindE (put_colour buf 15 (colour3 fc) 0) (\<lambda>buf.
     bindE (put_colour buf 16 (colour3 fc) 1) (\<lambda>buf.
            put_colour buf 17 (colour3 fc) 2))))))))"

text \<open>The loop \<^verbatim>\<open>for fanConfig in self.fanConfigs\<close> of \<^verbatim>\<open>LedConfig.apply\<close>. The
  one \<^verbatim>\<open>bytearray\<close> \<open>buf\<close> is created before the loop and mutated in every iteration,
  so it is threaded through the recursion.\<close>

fun apply_loop :: "reply \<Rightarrow> FanConfig list \<Rightarrow> byte list \<Rightarrow> trace \<Rightarrow> (error + unit) \<times> trace" where
  "apply_loop rp [] buf tr = (Inr (), tr)"
| "apply_loop rp (fanConfig # rest) buf tr =
     (let buf = buf[2 := FanID_value (fan fanConfig)];
          buf = buf[4 := Effect_value (effect fanConfig)];
          buf = buf[5 := Speed_value (speed fanConfig)];
          buf = buf[6 := Direction_value (direction fanConfig)];
          buf = buf[7 := ColourMode_value (colourMode fanConfig)]
      in case (if colourMode fanConfig \<noteq> RANDOM then put_colours buf fanConfig else Inr buf) of
           Inl e \<Rightarrow> (Inl e, tr)
         | Inr buf \<Rightarrow>
             (let tr = dev_write buf tr;
                  (resp, tr) = dev_read rp READ_LENGTH tr
              in apply_loop rp rest buf tr))"

text \<open>\<^verbatim>\<open>LedConfig.apply(device)\<close>.\<close>

definition LedConfig_apply :: "reply \<Rightarrow> LedConfig \<Rightarrow> trace \<Rightarrow> (error + unit) \<times> trace" where
  "LedConfig_apply rp self tr =
     (let init1 = (bytearray WRITE_LENGTH)[0 := Command_value SET_LED_GROUP_CLEAR];
          init2 = (bytearray WRITE_LENGTH)[0 := Command_value SET_LED_CLEAR];
          init3 = (bytearray WRITE_LENGTH)
                    [0 := Command_value SET_LED_BRIGHTNESS, 1 := 0x00, 2 := Brightness_value (brightness self)];
          init4 = (bytearray WRITE_LENGTH)[0 := Command_value SET_LED_GROUP_MODE, 1 := 0x00, 2 := 0x01];
          final = (bytearray WRITE_LENGTH)[0 := Command_value SET_LED_TRIGGER, 2 := 0xff];
          tr = clear_enqueued_reports tr;
          tr = dev_write init1 tr;
          (resp, tr) = dev_read rp READ_LENGTH tr;
          tr = dev_write init2 tr;
          (resp, tr) = dev_read rp READ_LENGTH tr;
          tr = dev_write init3 tr;
          (resp, tr) = dev_read rp READ_LENGTH tr;
          tr = dev_write init4 tr;
          (resp, tr) = dev_read rp READ_LENGTH tr;
          buf = (bytearray WRITE_LENGTH)
                  [0 := Command_value SET_LED_MODE, 1 := Channel_value (channel self),
                   3 := LedType_value (ledType self), 8 := 0xff]
      in case apply_loop rp (fanConfigs self) buf tr of
           (Inl e, tr) \<Rightarrow> (Inl e, tr)
         | (Inr u, tr) \<Rightarrow>
             (let tr = dev_write final tr;
                  (resp, tr) = dev_read rp READ_LENGTH tr
              in (Inr (), tr)))"

text \<open>\<^verbatim>\<open>CommanderPro.notify_led_temperature(channel, temperature)\<close>.\<close>

definition notify_led_temperature :: "reply \<Rightarrow> int \<Rightarrow> int \<Rightarrow> trace \<Rightarrow> (error + unit) \<times> trace" where
  "notify_led_temperature rp chan temperature tr =
     (if chan < 0 \<or> chan > 1 then (Inl ValueError, tr)
      else if temperature < 0 \<or> temperature > 65535 then (Inl ValueError, tr)
      else
        case bindE (setitem ((bytearray WRITE_LENGTH)[0 := Command_value SET_LED_TEMP_INFO]) 1 chan) (\<lambda>buf.
             bindE (to_bytes2 temperature) (\<lambda>temperature_bytes.
             Inr (buf[3 := temperature_bytes ! 0, 4 := temperature_bytes ! 1]))) of
          Inl e \<Rightarrow> (Inl e, tr)
        | Inr buf \<Rightarrow>
            (let tr = dev_write buf tr;
                 (resp, tr) = dev_read rp READ_LENGTH tr
             in (Inr (), tr)))"

section \<open>Fan control\<close>

text \<open>\<^verbatim>\<open>CommanderPro.set_speed_percent(channel, duty)\<close>.\<close>

definition set_speed_percent :: "reply \<Rightarrow> int \<Rightarrow> int \<Rightarrow> trace \<Rightarrow> (error + unit) \<times> trace" where
  "set_speed_percent rp chan duty tr =
     (if chan < 0 \<or> chan > 5 then (Inl ValueError, tr)
      else if duty > 100 \<or> duty < 0 then (Inl ValueError, tr)
      else
        case bindE (setitem ((bytearray WRITE_LENGTH)[0 := Command_value SET_FAN_SPEED_PERCENT]) 1 chan) (\<lambda>buf.
             setitem buf 2 duty) of
          Inl e \<Rightarrow> (Inl e, tr)
        | Inr buf \<Rightarrow>
            (let tr = clear_enqueued_reports tr;
                 tr = dev_write buf tr;
                 (resp, tr) = dev_read rp READ_LENGTH tr
             in (Inr (), tr)))"

text \<open>\<^verbatim>\<open>CommanderPro.set_fixed_speed(channel, duty)\<close>, for arguments that
  \<^verbatim>\<open>int(channel)\<close> and \<^verbatim>\<open>int(duty)\<close> have already converted.\<close>

definition set_fixed_speed :: "reply \<Rightarrow> int \<Rightarrow> int \<Rightarrow> trace \<Rightarrow> (error + unit) \<times> trace" where
  "set_fixed_speed rp chan duty tr =
     (let channel_index = chan;
          spd = duty
      in set_speed_percent rp channel_index spd tr)"

text \<open>
  \<^verbatim>\<open>set_speed_rpm\<close> stores \<^verbatim>\<open>channel_index\<close> into byte 1 of its frame. That name is
  neither a parameter nor a local variable of \<^verbatim>\<open>set_speed_rpm\<close> (its parameters are
  \<^verbatim>\<open>fan\<close> and \<^verbatim>\<open>speed\<close>), so Python looks it up among the module's globals, and the
  module binds no such name (the only other \<^verbatim>\<open>channel_index\<close> is a local variable of
  \<^verbatim>\<open>set_fixed_speed\<close>). A failed lookup raises \<^verbatim>\<open>NameError\<close>.
\<close>

definition global_channel_index :: "int option" where
  "global_channel_index = None"

text \<open>\<^verbatim>\<open>CommanderPro.set_speed_rpm(fan, speed)\<close>. The call of \<^verbatim>\<open>LOGGER.warning\<close> for a
  speed above 2500 changes neither the control flow nor the transport and is left out.\<close>

definition set_speed_rpm :: "reply \<Rightarrow> int \<Rightarrow> int \<Rightarrow> trace \<Rightarrow> (error + unit) \<times> trace" where
  "set_speed_rpm rp fanno rpm tr =
     (if fanno < 0 \<or> fanno > 5 then (Inl ValueError, tr)
      else if rpm < 0 then (Inl ValueError, tr)
      else if rpm > 65535 then (Inl ValueError, tr)
      else
        case bindE (case global_channel_index of None \<Rightarrow> Inl NameError | Some channel_index \<Rightarrow> Inr channel_index)
               (\<lambda>channel_index.
             bindE (setitem ((bytearray WRITE_LENGTH)[0 := Command_value SET_FAN_SPEED_RPM]) 1 channel_index) (\<lambda>buf.
             bindE (to_bytes2 rpm) (\<lambda>speed_bytes.
             Inr (buf[2 := speed_bytes ! 0, 3 := speed_bytes ! 1])))) of
          Inl e \<Rightarrow> (Inl e, tr)
        | Inr buf \<Rightarrow>
            (let tr = clear_enqueued_reports tr;
                 tr = dev_write buf tr;
                 (resp, tr) = dev_read rp READ_LENGTH tr
             in (Inr (), tr)))"

text \<open>The loop \<^verbatim>\<open>for i in range(0, 6)\<close> of \<^verbatim>\<open>set_speed_graph\<close>, over the list of
  indices still to do. Both lists have length 6 when it runs.\<close>

fun graph_loop :: "nat list \<Rightarrow> int list \<Rightarrow> int list \<Rightarrow> byte list \<Rightarrow> error + byte list" where
  "graph_loop [] temps speeds buf = Inr buf"
| "graph_loop (i # rest) temps speeds buf =
     bindE (to_bytes2 (temps ! i * 100)) (\<lambda>temp_bytes.
     bindE (to_bytes2 (speeds ! i)) (\<lambda>speed_bytes.
     graph_loop rest temps speeds
       (buf[3 + 2 * i := temp_bytes ! 0, 4 + 2 * i := temp_bytes ! 1,
            15 + 2 * i := speed_bytes ! 0, 16 + 2 * i := speed_bytes ! 1])))"

text \<open>\<^verbatim>\<open>CommanderPro.set_speed_graph(thermometer, fan, temps, speeds)\<close>.\<close>

definition set_speed_graph :: "reply \<Rightarrow> int \<Rightarrow> int \<Rightarrow> int list \<Rightarrow> int list \<Rightarrow> trace \<Rightarrow> (error + unit) \<times> trace" where
  "set_speed_graph rp thermometer fanno temps speeds tr =
     (if fanno < 0 \<or> fanno > 6 then (Inl ValueError, tr)
      else if thermometer < 0 \<or> thermometer > 3 then (Inl ValueError, tr)
      else if length temps \<noteq> 6 then (Inl ValueError, tr)
      else if length speeds \<noteq> 6 then (Inl ValueError, tr)
      else
        case bindE (setitem ((bytearray WRITE_LENGTH)[0 := Command_value SET_FAN_SPEED_GRAPH]) 1 fanno) (\<lambda>buf.
             bindE (setitem buf 2 thermometer) (\<lambda>buf.
             graph_loop [0..<6] temps speeds buf)) of
          Inl e \<Rightarrow> (Inl e, tr)
        | Inr buf \<Rightarrow>
            (let tr = clear_enqueued_reports tr;
                 tr = dev_write buf tr;
                 (resp, tr) = dev_read rp READ_LENGTH tr
             in (Inr (), tr)))"

text \<open>The loops \<^verbatim>\<open>while len(temperatures) < 6: temperatures.append(final_temp)\<close> and
  \<^verbatim>\<open>while len(speeds) < 6: speeds.append(final_speed)\<close> of \<^verbatim>\<open>set_speed_profile\<close>.\<close>

function pad_to_6 :: "int list \<Rightarrow> int \<Rightarrow> int list" where
  "pad_to_6 xs final = (if length xs < 6 then pad_to_6 (xs @ [final]) final else xs)"
  by pat_completeness auto
termination
  by (relation "measure (\<lambda>(xs, final). 6 - length xs)") auto

declare pad_to_6.simps [simp del]

text \<open>\<^verbatim>\<open>CommanderPro.set_speed_profile(channel, profile)\<close>, for a channel that
  \<^verbatim>\<open>int(channel)\<close> has already converted and a profile of integer pairs
  \<^verbatim>\<open>(temperature, pwm)\<close>.\<close>

definition set_speed_profile :: "reply \<Rightarrow> int \<Rightarrow> (int \<times> int) list \<Rightarrow> trace \<Rightarrow> (error + unit) \<times> trace" where
  "set_speed_profile rp chan profile tr =
     (let fan_number = chan;
          temperatures = map (\<lambda>(temperature, pwm). temperature) profile;
          speeds = map (\<lambda>(temperature, pwm). pwm * 25) profile;
          (temperatures, speeds) =
            (if length temperatures > 0 \<and> length speeds > 0
             then (let final_temp = temperatures ! (length temperatures - 1);
                       final_speed = speeds ! (length speeds - 1)
                   in (pad_to_6 temperatures final_temp, pad_to_6 speeds final_speed))
             else (temperatures, speeds))
      in set_speed_graph rp 0 fan_number temperatures speeds tr)"

text \<open>\<^verbatim>\<open>CommanderPro.send_temperature_info(sensor_index, temperature)\<close>.\<close>

definition send_temperature_info :: "reply \<Rightarrow> int \<Rightarrow> int \<Rightarrow> trace \<Rightarrow> (error + unit) \<times> trace" where
  "send_temperature_info rp sensor_index temperature tr =
     (if sensor_index > 255 \<or> sensor_index < 0 then (Inl ValueError, tr)
      else
        case bindE (setitem ((bytearray WRITE_LENGTH)[0 := Command_value SET_FAN_TEMP_INFO]) 1 sensor_index) (\<lambda>buf.
             bindE (to_bytes2 (temperature * 100)) (\<lambda>temp_bytes.
             Inr (buf[2 := temp_bytes ! 0, 3 := temp_bytes ! 1]))) of
          Inl e \<Rightarrow> (Inl e, tr)
        | Inr buf \<Rightarrow>
            (let tr = dev_write buf tr;
                 (resp, tr) = dev_read rp READ_LENGTH tr
             in (Inr (), tr)))"

text \<open>\<^verbatim>\<open>CommanderPro.set_fan_mode(fan, mode)\<close>.\<close>

definition set_fan_mode :: "reply \<Rightarrow> int \<Rightarrow> int \<Rightarrow> trace \<Rightarrow> (error + unit) \<times> trace" where
  "set_fan_mode rp fanno mode tr =
     (if fanno < 0 \<or> fanno > 5 then (Inl ValueError, tr)
      else if mode < 0 \<or> mode > 2 then (Inl ValueError, tr)
      else
        case bindE (setitem ((bytearray WRITE_LENGTH)[0 := Command_value SET_FAN_MODE, 1 := 0x02]) 2 fanno) (\<lambda>buf.
             setitem buf 3 mode) of
          Inl e \<Rightarrow> (Inl e, tr)
        | Inr buf \<Rightarrow>
            (let tr = dev_write buf tr;
                 (resp, tr) = dev_read rp READ_LENGTH tr
             in (Inr (), tr)))"

section \<open>Status\<close>

text \<open>A status value is a string, an integer or a float; a sample is the tuple
  \<^verbatim>\<open>(property, value, unit)\<close>. A float is modelled by the real number it stands for.\<close>

datatype pyvalue = StrV string | IntV int | FloatV real

type_synonym sample = "string \<times> pyvalue \<times> string"

text \<open>\<^verbatim>\<open>CommanderPro.get_fan_speed_rpm(fanIndex)\<close>.\<close>

definition get_fan_speed_rpm :: "reply \<Rightarrow> int \<Rightarrow> trace \<Rightarrow> (error + int) \<times> trace" where
  "get_fan_speed_rpm rp fanIndex tr =
     (case setitem ((bytearray WRITE_LENGTH)[0 := Command_value GET_FAN_SPEED]) 1 fanIndex of
        Inl e \<Rightarrow> (Inl e, tr)
      | Inr buf \<Rightarrow>
          (let tr = clear_enqueued_reports tr;
               tr = dev_write buf tr;
               (resp, tr) = dev_read rp READ_LENGTH tr
           in (Inr (from_bytes (slice resp 1 3)), tr)))"

text \<open>The loop \<^verbatim>\<open>for i in range(1, 7)\<close> of \<^verbatim>\<open>get_fan_status\<close>, over the list of
  indices still to do; \<open>properties\<close> is the list built so far.\<close>

fun fan_status_loop :: "reply \<Rightarrow> byte list \<Rightarrow> nat list \<Rightarrow> sample list \<Rightarrow> trace \<Rightarrow> (error + sample list) \<times> trace" where
  "fan_status_loop rp resp [] properties tr = (Inr properties, tr)"
| "fan_status_loop rp resp (i # rest) properties tr =
     (let propertyName = ''Fan '' @ fmt_d i;
          status = (if resp ! i = 0x00 then ''disconnected''
                    else if resp ! i = 0x01 then ''connected (3 pins)''
                    else if resp ! i = 0x02 then ''connected (4 pins)''
                    else ''unknown'');
          properties = properties @ [(propertyName @ '' status'', StrV status, [])]
      in if resp ! i = 0x01 \<or> resp ! i = 0x02
         then (case get_fan_speed_rpm rp (int i - 1) tr of
                 (Inl e, tr) \<Rightarrow> (Inl e, tr)
               | (Inr rpm, tr) \<Rightarrow>
                   fan_status_loop rp resp rest
                     (properties @ [(propertyName @ '' speed'', IntV rpm, ''rpm'')]) tr)
         else fan_status_loop rp resp rest properties tr)"

text \<open>\<^verbatim>\<open>CommanderPro.get_fan_status()\<close>.\<close>

definition get_fan_status :: "reply \<Rightarrow> trace \<Rightarrow> (error + sample list) \<times> trace" where
  "get_fan_status rp tr =
     (let buf = (bytearray WRITE_LENGTH)[0 := Command_value GET_FAN_CONFIG];
          tr = clear_enqueued_reports tr;
          tr = dev_write buf tr;
          (resp, tr) = dev_read rp READ_LENGTH tr
      in fan_status_loop rp resp [1..<7] [] tr)"

text \<open>\<^verbatim>\<open>CommanderPro.get_temperature(index)\<close>; Python's \<^verbatim>\<open>/\<close> is true division.\<close>

definition get_temperature :: "reply \<Rightarrow> int \<Rightarrow> trace \<Rightarrow> (error + real) \<times> trace" where
  "get_temperature rp index tr =
     (if index < 0 \<or> index > 3 then (Inl ValueError, tr)
      else
        case setitem ((bytearray WRITE_LENGTH)[0 := Command_value GET_TEMPERATURE]) 1 index of
          Inl e \<Rightarrow> (Inl e, tr)
        | Inr buf \<Rightarrow>
            (let tr = clear_enqueued_reports tr;
                 tr = dev_write buf tr;
                 (resp, tr) = dev_read rp READ_LENGTH tr
             in (Inr (real_of_int (from_bytes (slice resp 1 3)) / 100), tr)))"

text \<open>The unit string of a temperature sample, a degree sign and \<^verbatim>\<open>C\<close>, as the
  bytes of its UTF-8 encoding.\<close>

definition degrees_C :: string where
  "degrees_C = [CHR 0xC2, CHR 0xB0, CHR ''C'']"

text \<open>The loop \<^verbatim>\<open>for i in range(1, 5)\<close> of \<^verbatim>\<open>get_thermometer_status\<close>.\<close>

fun thermometer_status_loop :: "reply \<Rightarrow> byte list \<Rightarrow> nat list \<Rightarrow> sample list \<Rightarrow> trace \<Rightarrow> (error + sample list) \<times> trace" where
  "thermometer_status_loop rp resp [] config tr = (Inr config, tr)"
| "thermometer_status_loop rp resp (i # rest) config tr =
     (let propertyName = ''Thermometer '' @ fmt_d i;
          status = (if resp ! i = 0x00 then ''disconnected''
                    else if resp ! i = 0x01 then ''connected''
                    else ''unknown'');
          config = config @ [(propertyName @ '' status'', StrV status, [])]
      in if resp ! i = 0x01
         then (case get_temperature rp (int i - 1) tr of
                 (Inl e, tr) \<Rightarrow> (Inl e, tr)
               | (Inr temp, tr) \<Rightarrow>
                   thermometer_status_loop rp resp rest
                     (config @ [(propertyName @ '' temperature'', FloatV temp, degrees_C)]) tr)
         else thermometer_status_loop rp resp rest config tr)"

text \<open>\<^verbatim>\<open>CommanderPro.get_thermometer_status()\<close>.\<close>

definition get_thermometer_status :: "reply \<Rightarrow> trace \<Rightarrow> (error + sample list) \<times> trace" where
  "get_thermometer_status rp tr =
     (let buf = (bytearray WRITE_LENGTH)[0 := Command_value GET_THERMOMETER_CONFIG];
          tr = clear_enqueued_reports tr;
          tr = dev_write buf tr;
          (resp, tr) = dev_read rp READ_LENGTH tr
      in thermometer_status_loop rp resp [1..<5] [] tr)"

section \<open>Well-formed inputs and example inputs\<close>

text \<open>A colour as the data model has it: an RGB triple, at least three items of which
  the first three are bytes. These are exactly the items \<^verbatim>\<open>LedConfig.apply\<close> reads.\<close>

definition colour_ok :: "int list \<Rightarrow> bool" where
  "colour_ok c \<longleftrightarrow> 3 \<le> length c \<and> list_all (\<lambda>v. 0 \<le> v \<and> v \<le> 255) (take 3 c)"

text \<open>A group configuration is well formed when its three colours are RGB triples; in
  colour mode \<^verbatim>\<open>RANDOM\<close> the colours are never read, so nothing is asked of them.\<close>

definition well_formed :: "FanConfig \<Rightarrow> bool" where
  "well_formed fc \<longleftrightarrow>
     colourMode fc = RANDOM \<or> (colour_ok (colour1 fc) \<and> colour_ok (colour2 fc) \<and> colour_ok (colour3 fc))"

text \<open>A device that answers every read with the byte \<open>b\<close> in every position.\<close>

definition reply_const :: "byte \<Rightarrow> reply" where
  "reply_const b = (\<lambda>tr i. b)"

text \<open>Two groups in colour mode \<^verbatim>\<open>ALTERNATING\<close> on channel 1.\<close>

definition example_alternating :: LedConfig where
  "example_alternating =
     \<lparr>channel = CHANNEL_1, ledType = HD_FAN, brightness = Brightness_MAX,
      fanConfigs = [
        \<lparr>fan = FAN_1, effect = STATIC, speed = Speed_HIGH, direction = FORWARD,
         colourMode = ALTERNATING, colour1 = [255, 0, 0], colour2 = [0, 255, 0], colour3 = [0, 0, 255]\<rparr>,
        \<lparr>fan = FAN_4, effect = COLOUR_PULSE, speed = Speed_SLOW, direction = BACKWARD,
         colourMode = ALTERNATING, colour1 = [1, 2, 3], colour2 = [4, 5, 6], colour3 = [7, 8, 9]\<rparr>]\<rparr>"

text \<open>A group in colour mode \<^verbatim>\<open>ALTERNATING\<close> with a red first colour, followed by a
  group in colour mode \<^verbatim>\<open>RANDOM\<close>.\<close>

definition example_random_second :: LedConfig where
  "example_random_second =
     \<lparr>channel = CHANNEL_1, ledType = HD_FAN, brightness = Brightness_MAX,
      fanConfigs = [
        \<lparr>fan = FAN_1, effect = STATIC, speed = Speed_HIGH, direction = FORWARD,
         colourMode = ALTERNATING, colour1 = [255, 0, 0], colour2 = [0, 0, 0], colour3 = [0, 0, 0]\<rparr>,
        \<lparr>fan = FAN_2, effect = STATIC, speed = Speed_HIGH, direction = FORWARD,
         colourMode = RANDOM, colour1 = [0, 0, 0], colour2 = [0, 0, 0], colour3 = [0, 0, 0]\<rparr>]\<rparr>"

section \<open>Properties of the LED programming sequence\<close>

lemma colour_ok_nth: "colour_ok c \<Longrightarrow> k < 3 \<Longrightarrow> k < length c \<and> 0 \<le> c ! k \<and> c ! k \<le> 255"
  by (auto simp: colour_ok_def list_all_length)

lemma put_colour_ok:
  assumes "colour_ok c" "k < 3" "i < length buf"
  shows "put_colour buf i c k = Inr (buf[i := word_of_int (c ! k)])"
  using colour_ok_nth [OF assms(1,2)] assms(3)
  by (simp add: put_colour_def bindE_def getitem_def setitem_def)

lemma put_colours_ok:
  assumes "colour_ok (colour1 fc)" "colour_ok (colour2 fc)" "colour_ok (colour3 fc)" "17 < length buf"
  shows "\<exists>buf'. put_colours buf fc = Inr buf' \<and> length buf' = length buf \<and> (\<forall>j<9. buf' ! j = buf ! j)"
  using assms by (simp add: put_colours_def bindE_def put_colour_ok)

text \<open>The loop writes one frame per group configuration, each followed by one read, and
  every frame carries the wire values of its own configuration.\<close>

lemma apply_loop_trace:
  "list_all well_formed fcs \<Longrightarrow> length buf = 64 \<Longrightarrow> buf ! 0 = 0x35 \<Longrightarrow>
   \<exists>fs. apply_loop rp fcs buf tr = (Inr (), tr @ concat (map (\<lambda>f. [Write f, Read READ_LENGTH]) fs))
      \<and> length fs = length fcs
      \<and> (\<forall>k<length fcs. length (fs ! k) = 64 \<and> fs ! k ! 0 = 0x35
            \<and> fs ! k ! 2 = FanID_value (fan (fcs ! k))
            \<and> fs ! k ! 4 = Effect_value (effect (fcs ! k))
            \<and> fs ! k ! 5 = Speed_value (speed (fcs ! k))
            \<and> fs ! k ! 6 = Direction_value (direction (fcs ! k))
            \<and> fs ! k ! 7 = ColourMode_value (colourMode (fcs ! k)))"
proof (induction fcs arbitrary: buf tr)
  case Nil
  then show ?case by simp
next
  case (Cons fc rest)
  define b1 where "b1 = buf[2 := FanID_value (fan fc), 4 := Effect_value (effect fc),
      5 := Speed_value (speed fc), 6 := Direction_value (direction fc),
      7 := ColourMode_value (colourMode fc)]"
  have len1: "length b1 = 64" using Cons.prems by (simp add: b1_def)
  have wf: "well_formed fc" and wfr: "list_all well_formed rest" using Cons.prems by simp_all
  obtain b2 where b2: "(if colourMode fc \<noteq> RANDOM then put_colours b1 fc else Inr b1) = Inr b2"
    and len2: "length b2 = 64" and same: "\<forall>j<9. b2 ! j = b1 ! j"
  proof (cases "colourMode fc = RANDOM")
    case True
    then show ?thesis using that [of b1] len1 by simp
  next
    case False
    with wf have "colour_ok (colour1 fc)" "colour_ok (colour2 fc)" "colour_ok (colour3 fc)"
      by (simp_all add: well_formed_def)
    from put_colours_ok [OF this, of b1] len1 obtain b' where
      "put_colours b1 fc = Inr b'" "length b' = length b1" "\<forall>j<9. b' ! j = b1 ! j" by auto
    then show ?thesis using that [of b'] False len1 by simp
  qed
  have hd2: "b2 ! 0 = 0x35" using same Cons.prems by (simp add: b1_def)
  from Cons.IH [OF wfr len2 hd2, of "tr @ [Write b2, Read READ_LENGTH]"]
  obtain fs where fs: "apply_loop rp rest b2 (tr @ [Write b2, Read READ_LENGTH]) =
        (Inr (), (tr @ [Write b2, Read READ_LENGTH]) @ concat (map (\<lambda>f. [Write f, Read READ_LENGTH]) fs))"
     and lfs: "length fs = length rest"
     and props: "\<forall>k<length rest. length (fs ! k) = 64 \<and> fs ! k ! 0 = 0x35
            \<and> fs ! k ! 2 = FanID_value (fan (rest ! k))
            \<and> fs ! k ! 4 = Effect_value (effect (rest ! k))
            \<and> fs ! k ! 5 = Speed_value (speed (rest ! k))
            \<and> fs ! k ! 6 = Direction_value (direction (rest ! k))
            \<and> fs ! k ! 7 = ColourMode_value (colourMode (rest ! k))"
    by blast
  have "apply_loop rp (fc # rest) buf tr =
      (case (if colourMode fc \<noteq> RANDOM then put_colours b1 fc else Inr b1) of
         Inl e \<Rightarrow> (Inl e, tr)
       | Inr b \<Rightarrow> apply_loop rp rest b (tr @ [Write b, Read READ_LENGTH]))"
    by (simp add: b1_def Let_def dev_write_def dev_read_def split: sum.splits)
  then have step: "apply_loop rp (fc # rest) buf tr = apply_loop rp rest b2 (tr @ [Write b2, Read READ_LENGTH])"
    unfolding b2 by simp
  have b2vals: "b2 ! 2 = FanID_value (fan fc)" "b2 ! 4 = Effect_value (effect fc)"
      "b2 ! 5 = Speed_value (speed fc)" "b2 ! 6 = Direction_value (direction fc)"
      "b2 ! 7 = ColourMode_value (colourMode fc)"
    using same Cons.prems(2) by (simp_all add: b1_def)
  show ?case
  proof (intro exI [of _ "b2 # fs"] conjI allI impI)
    show "apply_loop rp (fc # rest) buf tr =
      (Inr (), tr @ concat (map (\<lambda>f. [Write f, Read READ_LENGTH]) (b2 # fs)))"
      using step fs by simp
    show "length (b2 # fs) = length (fc # rest)" using lfs by simp
  next
    fix k assume "k < length (fc # rest)"
    then show "length ((b2 # fs) ! k) = 64" "(b2 # fs) ! k ! 0 = 0x35"
      "(b2 # fs) ! k ! 2 = FanID_value (fan ((fc # rest) ! k))"
      "(b2 # fs) ! k ! 4 = Effect_value (effect ((fc # rest) ! k))"
      "(b2 # fs) ! k ! 5 = Speed_value (speed ((fc # rest) ! k))"
      "(b2 # fs) ! k ! 6 = Direction_value (direction ((fc # rest) ! k))"
      "(b2 # fs) ! k ! 7 = ColourMode_value (colourMode ((fc # rest) ! k))"
      using props len2 hd2 b2vals by (cases k; simp)+
  qed
qed

text \<open>The loop never looks at a response.\<close>

lemma apply_loop_indep: "apply_loop rp fcs buf tr = apply_loop rp' fcs buf tr"
  by (induction fcs arbitrary: buf tr)
     (simp_all add: Let_def dev_read_def dev_write_def split: sum.splits)

lemma LedConfig_apply_unfold:
  "LedConfig_apply rp self tr =
     (case apply_loop rp (fanConfigs self)
        ((bytearray WRITE_LENGTH)
           [0 := Command_value SET_LED_MODE, 1 := Channel_value (channel self),
            3 := LedType_value (ledType self), 8 := 0xff])
        (tr @ [Clear,
           Write ((bytearray WRITE_LENGTH)[0 := Command_value SET_LED_GROUP_CLEAR]), Read 16,
           Write ((bytearray WRITE_LENGTH)[0 := Command_value SET_LED_CLEAR]), Read 16,
           Write ((bytearray WRITE_LENGTH)
                    [0 := Command_value SET_LED_BRIGHTNESS, 1 := 0x00, 2 := Brightness_value (brightness self)]),
           Read 16,
           Write ((bytearray WRITE_LENGTH)[0 := Command_value SET_LED_GROUP_MODE, 1 := 0x00, 2 := 0x01]),
           Read 16]) of
        (Inl e, tr') \<Rightarrow> (Inl e, tr')
      | (Inr u, tr') \<Rightarrow>
          (Inr (), tr' @ [Write ((bytearray WRITE_LENGTH)[0 := Command_value SET_LED_TRIGGER, 2 := 0xff]),
                          Read 16]))"
  by (simp add: LedConfig_apply_def Let_def dev_read_def dev_write_def clear_enqueued_reports_def
      READ_LENGTH_def split: prod.splits sum.splits)

lemma LedConfig_apply_indep: "LedConfig_apply rp' self tr = LedConfig_apply rp self tr"
  unfolding LedConfig_apply_unfold apply_loop_indep [of rp' _ _ _ rp] by (rule refl)

text \<open>
  Claim C5. Applying an LED channel configuration with \<open>N\<close> well-formed group
  configurations succeeds, and what it does on the transport is one clear followed by
  exactly \<open>4 + N + 1\<close> writes, each followed by one read of 16 bytes. The frames written
  are 64 bytes long and start, in order, with 0x37 (group clear), 0x34 (clear), 0x39
  (brightness), 0x38 (group mode), \<open>N\<close> times 0x35 (one mode frame per group
  configuration, the \<open>k\<close>-th frame carrying the wire values of the \<open>k\<close>-th
  configuration) and 0x33 (trigger). The result and the calls made are the same for
  every device: no response is ever looked at.
\<close>

theorem LedConfig_apply_sequence:
  assumes wf: "list_all well_formed (fanConfigs self)"
  shows "\<exists>fs. LedConfig_apply rp self tr =
            (Inr (), tr @ Clear # concat (map (\<lambda>f. [Write f, Read 16]) fs))
     \<and> length fs = 4 + length (fanConfigs self) + 1
     \<and> map (\<lambda>f. f ! 0) fs = [0x37, 0x34, 0x39, 0x38] @ replicate (length (fanConfigs self)) 0x35 @ [0x33]
     \<and> list_all (\<lambda>f. length f = 64) fs
     \<and> (\<forall>k<length (fanConfigs self).
            fs ! (4 + k) ! 2 = FanID_value (fan (fanConfigs self ! k))
          \<and> fs ! (4 + k) ! 4 = Effect_value (effect (fanConfigs self ! k))
          \<and> fs ! (4 + k) ! 5 = Speed_value (speed (fanConfigs self ! k))
          \<and> fs ! (4 + k) ! 6 = Direction_value (direction (fanConfigs self ! k))
          \<and> fs ! (4 + k) ! 7 = ColourMode_value (colourMode (fanConfigs self ! k)))
     \<and> (\<forall>rp'. LedConfig_apply rp' self tr = LedConfig_apply rp self tr)"
proof -
  let ?init1 = "(bytearray WRITE_LENGTH)[0 := Command_value SET_LED_GROUP_CLEAR]"
  let ?init2 = "(bytearray WRITE_LENGTH)[0 := Command_value SET_LED_CLEAR]"
  let ?init3 = "(bytearray WRITE_LENGTH)
      [0 := Command_value SET_LED_BRIGHTNESS, 1 := 0x00, 2 := Brightness_value (brightness self)]"
  let ?init4 = "(bytearray WRITE_LENGTH)[0 := Command_value SET_LED_GROUP_MODE, 1 := 0x00, 2 := 0x01]"
  let ?final = "(bytearray WRITE_LENGTH)[0 := Command_value SET_LED_TRIGGER, 2 := 0xff]"
  let ?buf = "(bytearray WRITE_LENGTH)
      [0 := Command_value SET_LED_MODE, 1 := Channel_value (channel self),
       3 := LedType_value (ledType self), 8 := 0xff]"
  let ?tr1 = "tr @ [Clear, Write ?init1, Read 16, Write ?init2, Read 16,
      Write ?init3, Read 16, Write ?init4, Read 16]"
  have lens: "length ?init1 = 64" "length ?init2 = 64" "length ?init3 = 64" "length ?init4 = 64"
      "length ?final = 64" "length ?buf = 64"
    by (simp_all add: bytearray_def WRITE_LENGTH_def)
  have heads: "?init1 ! 0 = 0x37" "?init2 ! 0 = 0x34" "?init3 ! 0 = 0x39" "?init4 ! 0 = 0x38"
      "?final ! 0 = 0x33" "?buf ! 0 = 0x35"
    by (simp_all add: bytearray_def WRITE_LENGTH_def)
  from apply_loop_trace [OF wf lens(6) heads(6), of rp ?tr1]
  obtain gs where gs: "apply_loop rp (fanConfigs self) ?buf ?tr1 =
        (Inr (), ?tr1 @ concat (map (\<lambda>f. [Write f, Read READ_LENGTH]) gs))"
    and lgs: "length gs = length (fanConfigs self)"
    and pgs: "\<forall>k<length (fanConfigs self). length (gs ! k) = 64 \<and> gs ! k ! 0 = 0x35
            \<and> gs ! k ! 2 = FanID_value (fan (fanConfigs self ! k))
            \<and> gs ! k ! 4 = Effect_value (effect (fanConfigs self ! k))
            \<and> gs ! k ! 5 = Speed_value (speed (fanConfigs self ! k))
            \<and> gs ! k ! 6 = Direction_value (direction (fanConfigs self ! k))
            \<and> gs ! k ! 7 = ColourMode_value (colourMode (fanConfigs self ! k))"
    by blast
  let ?fs = "[?init1, ?init2, ?init3, ?init4] @ gs @ [?final]"
  have run: "LedConfig_apply rp self tr =
      (Inr (), tr @ Clear # concat (map (\<lambda>f. [Write f, Read 16]) ?fs))"
    unfolding LedConfig_apply_unfold gs by (simp add: READ_LENGTH_def)
  have gheads: "map (\<lambda>f. f ! 0) gs = replicate (length (fanConfigs self)) 0x35"
    using lgs pgs by (simp add: list_eq_iff_nth_eq)
  have glens: "list_all (\<lambda>f. length f = 64) gs"
    using lgs pgs by (simp add: list_all_length)
  have nth_fs: "?fs ! (4 + k) = gs ! k" if "k < length gs" for k
    using that by (simp add: nth_append)
  show ?thesis
  proof (intro exI [of _ ?fs] conjI)
    show "LedConfig_apply rp self tr =
      (Inr (), tr @ Clear # concat (map (\<lambda>f. [Write f, Read 16]) ?fs))" by (rule run)
    show "length ?fs = 4 + length (fanConfigs self) + 1" using lgs by simp
    show "map (\<lambda>f. f ! 0) ?fs = [0x37, 0x34, 0x39, 0x38] @ replicate (length (fanConfigs self)) 0x35 @ [0x33]"
      using gheads heads by simp
    show "list_all (\<lambda>f. length f = 64) ?fs" using glens lens by simp
    show "\<forall>k<length (fanConfigs self).
            ?fs ! (4 + k) ! 2 = FanID_value (fan (fanConfigs self ! k))
          \<and> ?fs ! (4 + k) ! 4 = Effect_value (effect (fanConfigs self ! k))
          \<and> ?fs ! (4 + k) ! 5 = Speed_value (speed (fanConfigs self ! k))
          \<and> ?fs ! (4 + k) ! 6 = Direction_value (direction (fanConfigs self ! k))
          \<and> ?fs ! (4 + k) ! 7 = ColourMode_value (colourMode (fanConfigs self ! k))"
      using pgs lgs nth_fs by simp
    show "\<forall>rp'. LedConfig_apply rp' self tr = LedConfig_apply rp self tr"
      using LedConfig_apply_indep by blast
  qed
qed

text \<open>The theorem at the configuration with two alternating groups: seven frames, the
  four priming frames, two mode frames and the trigger.\<close>

theorem LedConfig_apply_sequence_witness:
  "list_all well_formed (fanConfigs example_alternating)
   \<and> (\<exists>fs. LedConfig_apply (reply_const 0) example_alternating [] =
              (Inr (), Clear # concat (map (\<lambda>f. [Write f, Read 16]) fs))
          \<and> length fs = 7
          \<and> map (\<lambda>f. f ! 0) fs = [0x37, 0x34, 0x39, 0x38, 0x35, 0x35, 0x33])"
proof -
  have h: "list_all well_formed (fanConfigs example_alternating)"
    by (simp add: example_alternating_def well_formed_def colour_ok_def)
  have n: "length (fanConfigs example_alternating) = Suc (Suc 0)"
    by (simp add: example_alternating_def)
  from LedConfig_apply_sequence [OF h, of "reply_const 0" "[]"]
  obtain fs where "LedConfig_apply (reply_const 0) example_alternating [] =
              (Inr (), [] @ Clear # concat (map (\<lambda>f. [Write f, Read 16]) fs))"
    and "length fs = 4 + length (fanConfigs example_alternating) + 1"
    and "map (\<lambda>f. f ! 0) fs =
           [0x37, 0x34, 0x39, 0x38] @ replicate (length (fanConfigs example_alternating)) 0x35 @ [0x33]"
    by blast
  then have "LedConfig_apply (reply_const 0) example_alternating [] =
              (Inr (), Clear # concat (map (\<lambda>f. [Write f, Read 16]) fs))
          \<and> length fs = 7
          \<and> map (\<lambda>f. f ! 0) fs = [0x37, 0x34, 0x39, 0x38, 0x35, 0x35, 0x33]"
    by (simp add: n)
  then have "\<exists>fs. LedConfig_apply (reply_const 0) example_alternating [] =
              (Inr (), Clear # concat (map (\<lambda>f. [Write f, Read 16]) fs))
          \<and> length fs = 7
          \<and> map (\<lambda>f. f ! 0) fs = [0x37, 0x34, 0x39, 0x38, 0x35, 0x35, 0x33]"
    by (rule exI)
  with h show ?thesis by (rule conjI)
qed

text \<open>
  Claim C1. A mode frame for a group in colour mode \<^verbatim>\<open>RANDOM\<close> should carry zero in
  bytes 9 to 17 whatever was programmed before it. The driver reuses one buffer for all
  mode frames and only skips the colour assignments for a random group, so the colour
  bytes of the group before it stay in the frame: after an alternating group whose first
  colour is red, the frame of the random group (the sixth write, the twelfth call on the
  transport) has colour mode 1 at byte 7 and 0xFF at byte 9.
\<close>

theorem random_frame_keeps_earlier_colours:
  "snd (LedConfig_apply rp example_random_second []) ! 11 =
     Write ([0x35, 0x00, 0x0C, 0x0C, 0x04, 0x00, 0x01, 0x01, 0xFF, 0xFF] @ replicate 54 0)"
  by (simp add: example_random_second_def LedConfig_apply_def Let_def dev_read_def dev_write_def
        clear_enqueued_reports_def READ_LENGTH_def WRITE_LENGTH_def bytearray_def
        put_colours_def put_colour_def bindE_def getitem_def setitem_def numeral_eq_Suc)

section \<open>Properties of the fan commands\<close>

text \<open>
  Claim C2. \<^verbatim>\<open>set_speed_rpm\<close> should write a frame 0x24, fan index, speed (big endian)
  for every fan index in [0,5] and every speed in [0,65535]. It never writes a frame: an
  argument outside these ranges is rejected with \<^verbatim>\<open>ValueError\<close>, and for every
  argument inside them the lookup of the unbound name \<^verbatim>\<open>channel_index\<close> raises
  \<^verbatim>\<open>NameError\<close> before anything reaches the transport.
\<close>

theorem set_speed_rpm_never_writes:
  "set_speed_rpm rp fanno rpm tr =
     (if fanno < 0 \<or> 5 < fanno \<or> rpm < 0 \<or> 65535 < rpm then (Inl ValueError, tr)
      else (Inl NameError, tr))"
  by (simp add: set_speed_rpm_def global_channel_index_def bindE_def)

theorem set_speed_rpm_never_writes_witness:
  "set_speed_rpm (reply_const 0) 0 1000 [] = (Inl NameError, [])"
  using set_speed_rpm_never_writes [of "reply_const 0" 0 1000 "[]"] by simp

text \<open>
  Claim C6. The curve of the end-to-end scenario, thermometer 0, fan 0, temperatures
  20, 30, 40, 60, 80, 100 and speeds 800, 1000, 1250, 1500, 2000, 2500: the driver
  clears, writes one frame and reads 16 bytes. The frame has 64 bytes: 0x25, 0, 0, the
  temperatures times 100 as big-endian pairs at bytes 3 to 14 (2000 = 0x07D0, 3000 =
  0x0BB8, 4000 = 0x0FA0, 6000 = 0x1770, 8000 = 0x1F40, 10000 = 0x2710), the speeds as
  big-endian pairs at bytes 15 to 26 (800 = 0x0320, 1000 = 0x03E8, 1250 = 0x04E2, 1500 =
  0x05DC, 2000 = 0x07D0, 2500 = 0x09C4), and 37 zero bytes.
\<close>

theorem set_speed_graph_scenario:
  "set_speed_graph rp 0 0 [20, 30, 40, 60, 80, 100] [800, 1000, 1250, 1500, 2000, 2500] tr =
     (Inr (),
      tr @ [Clear,
            Write ([0x25, 0x00, 0x00,
                    0x07, 0xD0, 0x0B, 0xB8, 0x0F, 0xA0, 0x17, 0x70, 0x1F, 0x40, 0x27, 0x10,
                    0x03, 0x20, 0x03, 0xE8, 0x04, 0xE2, 0x05, 0xDC, 0x07, 0xD0, 0x09, 0xC4]
                   @ replicate 37 0),
            Read 16])"
  by (simp add: set_speed_graph_def bindE_def setitem_def to_bytes2_def bytearray_def
      WRITE_LENGTH_def READ_LENGTH_def clear_enqueued_reports_def dev_write_def dev_read_def
      upt_rec numeral_eq_Suc)

end
